theory Spec2Isabelle
  imports Main "HOL-Library.Word"
begin

unbundle bit_operations_syntax

section \<open>mongo-connector document formatters: a shallow embedding\<close>

text \<open>
  The development follows \<^verbatim>\<open>src/mongo_connector/doc_managers/formatters.py\<close>:
  the enumeration \<^verbatim>\<open>DataType\<close> with its classifier, and the two formatters
  \<^verbatim>\<open>DefaultDocumentFormatter\<close> and \<^verbatim>\<open>DocumentFlattener\<close>.
  The interpreter is Python 3 (\<^verbatim>\<open>PY3\<close> is true, so \<^verbatim>\<open>long = int\<close> and
  \<^verbatim>\<open>unicode = str\<close>).
\<close>

subsection \<open>Python values\<close>

text \<open>
  A float is finite (mantissa and binary exponent, carried as an opaque payload), an
  infinity or a NaN. The formatters only ask \<^verbatim>\<open>isnan\<close> and \<^verbatim>\<open>isinf\<close> of it.
\<close>

datatype pyfloat = Finite int int | PosInf | NegInf | NaN

text \<open>
  The runtime values a document holds, one constructor per runtime type the code tells
  apart. A \<^verbatim>\<open>dict\<close> is an association list in insertion order (Python keeps that
  order, and the formatters iterate in it); its keys are strings. A compiled pattern
  carries its pattern text and its flag bits, a \<^verbatim>\<open>bson.Binary\<close> and a
  \<^verbatim>\<open>bytes\<close> their bytes, a \<^verbatim>\<open>UUID\<close> its 128-bit integer, a
  \<^verbatim>\<open>datetime.datetime\<close> an opaque instant. \<open>VOther s\<close> is a value of any other
  type (an \<^verbatim>\<open>ObjectId\<close>, a \<^verbatim>\<open>Timestamp\<close>), with \<open>s\<close> its text
  \<^verbatim>\<open>unicode(value)\<close>.
\<close>

datatype pyval =
    VNone
  | VBool bool
  | VInt int
  | VFloat pyfloat
  | VStr string
  | VDatetime int
  | VRegex string int
  | VBinary "8 word list"
  | VBytes "8 word list"
  | VUUID "128 word"
  | VOther string
  | VList "pyval list"
  | VDict "(string \<times> pyval) list"

type_synonym pydict = "(string \<times> pyval) list"

text \<open>
  The exceptions the code raises or meets. \<open>RecursionError\<close> and \<open>SystemError\<close> occur
  in the store model only: the first when the call depth is used up, the second for a
  reference to no object or to an object of the wrong kind, which no Python program holds.
\<close>

datatype exn =
    ValueError string
  | TypeError
  | UnboundLocalError
  | OverflowError
  | IndexError
  | KeyError
  | RecursionError
  | SystemError

subsection \<open>String helpers\<close>

definition startswith :: "string \<Rightarrow> string \<Rightarrow> bool" where
  "startswith s p = (take (length p) s = p)"

text \<open>\<^verbatim>\<open>"%s.%s" % (a, b)\<close> for two strings.\<close>

definition dotted :: "string \<Rightarrow> string \<Rightarrow> string" where
  "dotted a b = a @ ''.'' @ b"

text \<open>\<^verbatim>\<open>".".join(path)\<close>.\<close>

fun join_dot :: "string list \<Rightarrow> string" where
  "join_dot [] = []"
| "join_dot [x] = x"
| "join_dot (x # y # ys) = x @ ''.'' @ join_dot (y # ys)"

definition digit_char :: "nat \<Rightarrow> char" where
  "digit_char n = ''0123456789abcdef'' ! (n mod 16)"

text \<open>The decimal text of a list index, as \<^verbatim>\<open>%s\<close> renders an \<^verbatim>\<open>int\<close>.\<close>

fun str_nat :: "nat \<Rightarrow> string" where
  "str_nat n = (if n < 10 then [digit_char n] else str_nat (n div 10) @ [digit_char (n mod 10)])"

declare str_nat.simps [simp del]

subsection \<open>The enumeration DataType\<close>

datatype DataType = BOOL | LONG | DOUBLE | STRING | DICT | DATETIME | GEOPOINT | UNKNOWN

text \<open>Iteration over the enumeration goes in declaration order.\<close>

definition DataType_members :: "DataType list" where
  "DataType_members = [BOOL, LONG, DOUBLE, STRING, DICT, DATETIME, GEOPOINT, UNKNOWN]"

text \<open>\<^verbatim>\<open>__str__\<close>: a table lookup with default \<^verbatim>\<open>""\<close>.\<close>

fun str_DataType :: "DataType \<Rightarrow> string" where
  "str_DataType BOOL = ''bool''"
| "str_DataType LONG = ''long''"
| "str_DataType DOUBLE = ''double''"
| "str_DataType STRING = ''string''"
| "str_DataType DICT = ''object''"
| "str_DataType DATETIME = ''datetime''"
| "str_DataType GEOPOINT = ''geopoint''"
| "str_DataType UNKNOWN = ''''"

definition fromStr_table :: "(string \<times> DataType) list" where
  "fromStr_table =
     [(''bool'', BOOL), (''long'', LONG), (''double'', DOUBLE), (''string'', STRING),
      (''object'', DICT), (''datetime'', DATETIME), (''geopoint'', GEOPOINT), ('''', UNKNOWN)]"

text \<open>\<^verbatim>\<open>fromStr\<close>: \<^verbatim>\<open>{...}.get(typeStr, DataType.UNKNOWN)\<close>.\<close>

definition fromStr :: "string \<Rightarrow> DataType" where
  "fromStr typeStr = (case map_of fromStr_table typeStr of Some t \<Rightarrow> t | None \<Rightarrow> UNKNOWN)"

definition prefix :: "DataType \<Rightarrow> string" where
  "prefix t = (if t = UNKNOWN then '''' else str_DataType t @ ''_'')"

text \<open>\<^verbatim>\<open>isGeoPoint\<close>: \<^verbatim>\<open>len(value.keys()) == 2 and 'lat' in value and 'lon' in value\<close>.\<close>

definition isGeoPoint :: "pydict \<Rightarrow> bool" where
  "isGeoPoint d = (length (map fst d) = 2 \<and> ''lat'' \<in> set (map fst d) \<and> ''lon'' \<in> set (map fst d))"

definition typeForDictValue :: "pydict \<Rightarrow> DataType" where
  "typeForDictValue d = (if isGeoPoint d then GEOPOINT else DICT)"

text \<open>
  The table of \<^verbatim>\<open>forValue\<close>, keyed by \<^verbatim>\<open>type(value)\<close>: a type that is not a key
  raises \<^verbatim>\<open>KeyError\<close>.
\<close>

fun type_table :: "pyval \<Rightarrow> exn + DataType" where
  "type_table (VBool b) = Inr BOOL"
| "type_table (VInt n) = Inr LONG"
| "type_table (VFloat f) = Inr DOUBLE"
| "type_table (VStr s) = Inr STRING"
| "type_table (VDatetime t) = Inr DATETIME"
| "type_table v = Inl KeyError"

text \<open>
  \<^verbatim>\<open>forValue\<close>. \<open>forValue_try\<close> is the body of the \<^verbatim>\<open>try\<close>, where
  \<^verbatim>\<open>value[0]\<close> of an empty list raises \<^verbatim>\<open>IndexError\<close> and the table lookup may
  raise \<^verbatim>\<open>KeyError\<close>; the bare \<^verbatim>\<open>except\<close> turns every exception into
  \<open>UNKNOWN\<close>.
\<close>

fun forValue_try :: "pyval \<Rightarrow> exn + DataType"
  and forValue :: "pyval \<Rightarrow> DataType" where
  "forValue_try (VDict d) = Inr (typeForDictValue d)"
| "forValue_try (VList []) = Inl IndexError"
| "forValue_try (VList (x # xs)) = Inr (forValue x)"
| "forValue_try VNone = type_table VNone"
| "forValue_try (VBool b) = type_table (VBool b)"
| "forValue_try (VInt n) = type_table (VInt n)"
| "forValue_try (VFloat f) = type_table (VFloat f)"
| "forValue_try (VStr s) = type_table (VStr s)"
| "forValue_try (VDatetime t) = type_table (VDatetime t)"
| "forValue_try (VRegex p f) = type_table (VRegex p f)"
| "forValue_try (VBinary b) = type_table (VBinary b)"
| "forValue_try (VBytes b) = type_table (VBytes b)"
| "forValue_try (VUUID u) = type_table (VUUID u)"
| "forValue_try (VOther s) = type_table (VOther s)"
| "forValue v = (case forValue_try v of Inl e \<Rightarrow> UNKNOWN | Inr t \<Rightarrow> t)"

text \<open>
  \<^verbatim>\<open>attributeNameFromKey\<close>: the first member whose prefix the key starts with
  decides; the loop falls through to \<^verbatim>\<open>return key\<close>.
\<close>

fun attributeNameFromKey_loop :: "DataType list \<Rightarrow> string \<Rightarrow> string" where
  "attributeNameFromKey_loop [] key = key"
| "attributeNameFromKey_loop (value_type # rest) key =
     (if startswith key (prefix value_type) then drop (length (prefix value_type)) key
      else attributeNameFromKey_loop rest key)"

definition attributeNameFromKey :: "string \<Rightarrow> string" where
  "attributeNameFromKey key = attributeNameFromKey_loop DataType_members key"


subsection \<open>Calls that may log and may raise\<close>

text \<open>
  A call returns the warnings it logged (\<^verbatim>\<open>LOG.warn\<close>, in order) and either the
  exception it raised or its value.
\<close>

type_synonym 'a res = "string list \<times> (exn + 'a)"

definition ret :: "'a \<Rightarrow> 'a res" where
  "ret x = ([], Inr x)"

definition raise :: "exn \<Rightarrow> 'a res" where
  "raise e = ([], Inl e)"

definition res_bind :: "'a res \<Rightarrow> ('a \<Rightarrow> 'b res) \<Rightarrow> 'b res" where
  "res_bind m f =
     (case m of
        (l, Inl e) \<Rightarrow> (l, Inl e)
      | (l, Inr x) \<Rightarrow> (case f x of (l', r) \<Rightarrow> (l @ l', r)))"

subsection \<open>Library calls of transform\_value\<close>

text \<open>\<^verbatim>\<open>base64.b64encode(value).decode()\<close>: three bytes give four characters.\<close>

definition b64_alphabet :: string where
  "b64_alphabet = ''ABCDEFGHIJKLMNOPQRSTUVWXYZabcdefghijklmnopqrstuvwxyz0123456789+/''"

definition b64_char :: "nat \<Rightarrow> char" where
  "b64_char n = b64_alphabet ! (n mod 64)"

fun b64encode :: "8 word list \<Rightarrow> string" where
  "b64encode [] = []"
| "b64encode [a] =
     (let n = unat a * 65536
      in [b64_char (n div 262144), b64_char (n div 4096), CHR ''='', CHR ''=''])"
| "b64encode [a, b] =
     (let n = unat a * 65536 + unat b * 256
      in [b64_char (n div 262144), b64_char (n div 4096), b64_char (n div 64), CHR ''=''])"
| "b64encode (a # b # c # rest) =
     (let n = unat a * 65536 + unat b * 256 + unat c
      in [b64_char (n div 262144), b64_char (n div 4096), b64_char (n div 64), b64_char n]
         @ b64encode rest)"

text \<open>\<^verbatim>\<open>UUID.hex\<close>: the 128-bit integer as 32 lowercase hexadecimal digits.\<close>

fun hex_fixed :: "nat \<Rightarrow> nat \<Rightarrow> string" where
  "hex_fixed 0 n = []"
| "hex_fixed (Suc w) n = hex_fixed w (n div 16) @ [digit_char n]"

definition uuid_hex :: "128 word \<Rightarrow> string" where
  "uuid_hex u = hex_fixed 32 (unat u)"

text \<open>
  The flag letters of a pattern, with \<^verbatim>\<open>re.IGNORECASE = 2\<close>, \<^verbatim>\<open>re.LOCALE = 4\<close>,
  \<^verbatim>\<open>re.MULTILINE = 8\<close>, \<^verbatim>\<open>re.DOTALL = 16\<close>, \<^verbatim>\<open>re.UNICODE = 32\<close> and
  \<^verbatim>\<open>re.VERBOSE = 64\<close>.
\<close>

definition regex_flags :: "int \<Rightarrow> string" where
  "regex_flags flags =
     (if flags AND 2 \<noteq> 0 then ''i'' else []) @
     (if flags AND 4 \<noteq> 0 then ''l'' else []) @
     (if flags AND 8 \<noteq> 0 then ''m'' else []) @
     (if flags AND 16 \<noteq> 0 then ''s'' else []) @
     (if flags AND 32 \<noteq> 0 then ''u'' else []) @
     (if flags AND 64 \<noteq> 0 then ''x'' else [])"

text \<open>
  \<^verbatim>\<open>math.isnan\<close> and \<^verbatim>\<open>math.isinf\<close> convert their argument to a float first:
  an \<^verbatim>\<open>int\<close> that rounds beyond the largest double raises \<^verbatim>\<open>OverflowError\<close>.
  A \<^verbatim>\<open>bool\<close> is an \<^verbatim>\<open>int\<close> (0 or 1).
\<close>

definition float_overflows :: "int \<Rightarrow> bool" where
  "float_overflows n = (2 ^ 1024 - 2 ^ 970 \<le> \<bar>n\<bar>)"

fun isnan :: "pyval \<Rightarrow> exn + bool" where
  "isnan (VBool b) = Inr False"
| "isnan (VInt n) = (if float_overflows n then Inl OverflowError else Inr False)"
| "isnan (VFloat f) = Inr (f = NaN)"
| "isnan v = Inl TypeError"

fun isinf :: "pyval \<Rightarrow> exn + bool" where
  "isinf (VBool b) = Inr False"
| "isinf (VInt n) = (if float_overflows n then Inl OverflowError else Inr False)"
| "isinf (VFloat f) = Inr (f = PosInf \<or> f = NegInf)"
| "isinf v = Inl TypeError"

text \<open>
  The branch \<^verbatim>\<open>isinstance(value, (int, long, float))\<close> of
  \<^verbatim>\<open>transform_value\<close>.
\<close>

definition numeric_branch :: "pyval \<Rightarrow> pyval res" where
  "numeric_branch v =
     (case isnan v of
        Inl e \<Rightarrow> raise e
      | Inr True \<Rightarrow> raise (ValueError ''nan'')
      | Inr False \<Rightarrow>
          (case isinf v of
             Inl e \<Rightarrow> raise e
           | Inr True \<Rightarrow> raise (ValueError ''inf'')
           | Inr False \<Rightarrow> ret v))"

text \<open>
  \<^verbatim>\<open>dict(pairs)\<close>: the pairs are stored one after the other; a key that is already
  there keeps its place and takes the new value.
\<close>

fun dict_setitem :: "pydict \<Rightarrow> string \<Rightarrow> pyval \<Rightarrow> pydict" where
  "dict_setitem [] k v = [(k, v)]"
| "dict_setitem ((k', v') # d) k v =
     (if k' = k then (k', v) # d else (k', v') # dict_setitem d k v)"

definition dict_of :: "pydict \<Rightarrow> pydict" where
  "dict_of pairs = foldl (\<lambda>d (k, v). dict_setitem d k v) [] pairs"

subsection \<open>DefaultDocumentFormatter\<close>

text \<open>The class of \<^verbatim>\<open>self\<close>: \<^verbatim>\<open>DocumentFlattener\<close> inherits \<^verbatim>\<open>transform_value\<close>.\<close>

datatype formatter = DefaultDocumentFormatter | DocumentFlattener

definition warning :: "string \<Rightarrow> string \<Rightarrow> string" where
  "warning key e = ''Invalid value for key: '' @ key @ '' as '' @ e"

text \<open>
  The loop body of \<^verbatim>\<open>_kernel\<close> over the pairs that \<^verbatim>\<open>transform_element\<close>
  yielded. The local \<^verbatim>\<open>new_key\<close> is \<open>None\<close> while unbound; it is assigned only
  when \<^verbatim>\<open>first_call\<close> is false or the key does not start with the prefix, and
  \<^verbatim>\<open>yield new_key, new_v\<close> reads it whatever happened: unbound, that is
  \<^verbatim>\<open>UnboundLocalError\<close>; bound by an earlier iteration, the earlier key is used.
\<close>

fun kernel_body :: "bool \<Rightarrow> pydict \<Rightarrow> string option \<Rightarrow> exn + (pydict \<times> string option)" where
  "kernel_body first_call [] new_key = Inr ([], new_key)"
| "kernel_body first_call ((new_k, new_v) # pairs) new_key =
     (let new_key' =
        (if first_call
         then (let p = prefix (forValue new_v)
               in if \<not> startswith new_k p then Some (p @ new_k) else new_key)
         else Some new_k)
      in case new_key' of
           None \<Rightarrow> Inl UnboundLocalError
         | Some k \<Rightarrow>
             (case kernel_body first_call pairs new_key' of
                Inl e \<Rightarrow> Inl e
              | Inr (out, nk) \<Rightarrow> Inr ((k, new_v) # out, nk)))"

text \<open>
  \<^verbatim>\<open>transform_value\<close> (of either class), the list comprehension in it,
  \<^verbatim>\<open>DefaultDocumentFormatter.transform_element\<close> (the pairs it yields: one, or none
  after a \<^verbatim>\<open>ValueError\<close>, which it logs), the generator \<^verbatim>\<open>_kernel\<close> (the pairs
  it yields, with the local \<^verbatim>\<open>new_key\<close> carried through the loop) and
  \<^verbatim>\<open>DefaultDocumentFormatter.format_document\<close>. A \<^verbatim>\<open>DocumentFlattener\<close> that
  reaches \<^verbatim>\<open>self.format_document(value, False)\<close> calls its own one-argument
  \<^verbatim>\<open>format_document\<close> with two: \<^verbatim>\<open>TypeError\<close>.
\<close>

function (sequential) transform_value :: "formatter \<Rightarrow> pyval \<Rightarrow> pyval res"
  and transform_values :: "formatter \<Rightarrow> pyval list \<Rightarrow> pyval list res"
  and transform_element_D :: "string \<Rightarrow> pyval \<Rightarrow> pydict res"
  and kernel_D :: "bool \<Rightarrow> pydict \<Rightarrow> string option \<Rightarrow> pydict res"
  and format_document_D :: "pydict \<Rightarrow> bool \<Rightarrow> pydict res" where
  "transform_value self (VDict d) =
     (case self of
        DefaultDocumentFormatter \<Rightarrow> res_bind (format_document_D d False) (\<lambda>r. ret (VDict r))
      | DocumentFlattener \<Rightarrow> raise TypeError)"
| "transform_value self (VList xs) = res_bind (transform_values self xs) (\<lambda>ys. ret (VList ys))"
| "transform_value self (VRegex pattern flags) =
     ret (VStr (''/'' @ pattern @ ''/'' @ regex_flags flags))"
| "transform_value self (VBinary b) = ret (VStr (b64encode b))"
| "transform_value self (VBytes b) = ret (VStr (b64encode b))"
| "transform_value self (VUUID u) = ret (VStr (uuid_hex u))"
| "transform_value self (VBool b) = numeric_branch (VBool b)"
| "transform_value self (VInt n) = numeric_branch (VInt n)"
| "transform_value self (VFloat f) = numeric_branch (VFloat f)"
| "transform_value self (VDatetime t) = ret (VDatetime t)"
| "transform_value self VNone = ret VNone"
| "transform_value self (VStr s) = ret (VStr s)"
| "transform_value self (VOther s) = ret (VStr s)"
| "transform_values self [] = ret []"
| "transform_values self (v # vs) =
     res_bind (transform_value self v) (\<lambda>y.
     res_bind (transform_values self vs) (\<lambda>ys. ret (y # ys)))"
| "transform_element_D key value =
     (case transform_value DefaultDocumentFormatter value of
        (l, Inr new_value) \<Rightarrow> (l, Inr [(key, new_value)])
      | (l, Inl (ValueError e)) \<Rightarrow> (l @ [warning key e], Inr [])
      | (l, Inl e) \<Rightarrow> (l, Inl e))"
| "kernel_D first_call [] new_key = ret []"
| "kernel_D first_call ((key, value) # doc) new_key =
     res_bind (transform_element_D key value) (\<lambda>pairs.
     res_bind ([], kernel_body first_call pairs new_key) (\<lambda>(out, new_key').
     res_bind (kernel_D first_call doc new_key') (\<lambda>rest. ret (out @ rest))))"
| "format_document_D document first_call =
     res_bind (kernel_D first_call document None) (\<lambda>pairs. ret (dict_of pairs))"
  by pat_completeness auto

termination
  by (relation "measure (\<lambda>x. case x of
        Inl (Inl (self, v)) \<Rightarrow> 2 * size v
      | Inl (Inr (self, vs)) \<Rightarrow> 2 * size_list size vs
      | Inr (Inl (key, v)) \<Rightarrow> 2 * size v + 1
      | Inr (Inr (Inl (first_call, d, new_key))) \<Rightarrow>
          2 * size_list (size_prod (\<lambda>x. 0) size) d
      | Inr (Inr (Inr (d, first_call))) \<Rightarrow>
          2 * size_list (size_prod (\<lambda>x. 0) size) d + 1)") auto

subsection \<open>DocumentFlattener\<close>

text \<open>
  A generator is what it yields, in order, and how it ends: normally (\<open>None\<close>) or with
  an exception (\<open>Some e\<close>). Generators are consumed lazily, so a consumer that raises
  at a yielded pair never sees what the generator would have done after it.
  No generator of the flattener logs: \<^verbatim>\<open>DocumentFlattener.transform_element\<close> has
  no \<^verbatim>\<open>try\<close>, and \<^verbatim>\<open>transform_value\<close> logs only through
  \<^verbatim>\<open>DefaultDocumentFormatter.transform_element\<close>, which a flattener never reaches
  (lemma \<open>transform_value_Flattener_no_log\<close> below).
\<close>

type_synonym gen = "pydict \<times> exn option"

text \<open>One generator after the other; the second one runs only if the first ends normally.\<close>

definition gen_seq :: "gen \<Rightarrow> gen \<Rightarrow> gen" where
  "gen_seq g h = (case g of (ys, Some e) \<Rightarrow> (ys, Some e) | (ys, None) \<Rightarrow> (ys @ fst h, snd h))"

text \<open>
  The body of \<^verbatim>\<open>for new_k, new_v in transformed\<close> in \<^verbatim>\<open>flatten\<close>, over the
  pairs yielded. At the top level, \<^verbatim>\<open>DataType.forValue(new_v).prefix + new_k\<close> adds
  the bound method \<^verbatim>\<open>prefix\<close> (it is not called) to a string: \<^verbatim>\<open>TypeError\<close>.
\<close>

fun flatten_body :: "bool \<Rightarrow> string \<Rightarrow> pydict \<Rightarrow> gen" where
  "flatten_body top_level path_string [] = ([], None)"
| "flatten_body top_level path_string ((new_k, new_v) # pairs) =
     (if top_level
      then (let t = forValue new_v in ([], Some TypeError))
      else gen_seq ([(dotted path_string new_k, new_v)], None)
             (flatten_body top_level path_string pairs))"

text \<open>\<^verbatim>\<open>path.pop()\<close>.\<close>

definition list_pop :: "string list \<Rightarrow> exn + string list" where
  "list_pop path = (case path of [] \<Rightarrow> Inl IndexError | _ \<Rightarrow> Inr (butlast path))"

text \<open>
  \<^verbatim>\<open>DocumentFlattener.transform_element\<close>, its loop over \<^verbatim>\<open>enumerate(value)\<close>,
  the generator \<^verbatim>\<open>flatten\<close> with its loop over the document, and
  \<^verbatim>\<open>DocumentFlattener.format_document\<close>. The list \<^verbatim>\<open>path\<close> is shared and
  mutated, so \<open>flatten\<close> takes it and returns it as it is when the generator ends.
  \<^verbatim>\<open>path_string\<close> is assigned only below the top level, and read only there.
\<close>

function (sequential) transform_element_F :: "string \<Rightarrow> pyval \<Rightarrow> gen"
  and enumerate_F :: "string \<Rightarrow> nat \<Rightarrow> pyval list \<Rightarrow> gen"
  and flatten :: "pydict \<Rightarrow> string list \<Rightarrow> gen \<times> string list"
  and flatten_loop :: "bool \<Rightarrow> string \<Rightarrow> pydict \<Rightarrow> string list \<Rightarrow> gen \<times> string list"
  and format_document_F :: "pydict \<Rightarrow> exn + pydict" where
  "transform_element_F key (VList xs) = enumerate_F key 0 xs"
| "transform_element_F key (VDict d) =
     (case format_document_F d of
        Inl e \<Rightarrow> ([], Some e)
      | Inr formatted \<Rightarrow> (map (\<lambda>(doc_key, v). (dotted key doc_key, v)) formatted, None))"
| "transform_element_F key value =
     (case snd (transform_value DocumentFlattener value) of
        Inl e \<Rightarrow> ([], Some e)
      | Inr new_value \<Rightarrow> ([(key, new_value)], None))"
| "enumerate_F key li [] = ([], None)"
| "enumerate_F key li (lv # rest) =
     gen_seq (transform_element_F (dotted key (str_nat li)) lv) (enumerate_F key (Suc li) rest)"
| "flatten doc path =
     (let top_level = (length path = 0);
          path_string = join_dot path
      in flatten_loop top_level path_string doc path)"
| "flatten_loop top_level path_string [] path = (([], None), path)"
| "flatten_loop top_level path_string ((k, VDict d) # doc) path =
     (case flatten d (path @ [k]) of
        ((ys, Some e), path') \<Rightarrow> ((ys, Some e), path')
      | ((ys, None), path') \<Rightarrow>
          (case list_pop path' of
             Inl e \<Rightarrow> ((ys, Some e), path')
           | Inr path'' \<Rightarrow>
               (case flatten_loop top_level path_string doc path'' of
                  (g, p) \<Rightarrow> (gen_seq (ys, None) g, p))))"
| "flatten_loop top_level path_string ((k, v) # doc) path =
     (case transform_element_F k v of
        (transformed, ended) \<Rightarrow>
          (case gen_seq (flatten_body top_level path_string transformed) ([], ended) of
             (ys, Some e) \<Rightarrow> ((ys, Some e), path)
           | (ys, None) \<Rightarrow>
               (case flatten_loop top_level path_string doc path of
                  (g, p) \<Rightarrow> (gen_seq (ys, None) g, p))))"
| "format_document_F document =
     (case flatten document [] of
        ((ys, Some e), p) \<Rightarrow> Inl e
      | ((ys, None), p) \<Rightarrow> Inr (dict_of ys))"
  by pat_completeness auto

termination
  by (relation "measure (\<lambda>x. case x of
        Inl (Inl (key, v)) \<Rightarrow> 3 * size v
      | Inl (Inr (key, li, xs)) \<Rightarrow> 3 * size_list size xs
      | Inr (Inl (doc, path)) \<Rightarrow> 3 * size_list (size_prod (\<lambda>x. 0) size) doc + 1
      | Inr (Inr (Inl (top_level, path_string, doc, path))) \<Rightarrow>
          3 * size_list (size_prod (\<lambda>x. 0) size) doc
      | Inr (Inr (Inr doc)) \<Rightarrow> 3 * size_list (size_prod (\<lambda>x. 0) size) doc + 2)") auto

subsection \<open>The fields of a document, as the specification names them\<close>










section \<open>The classifier\<close>

lemma two_keys:
  assumes "a \<noteq> b" and "distinct ks"
  shows "(length ks = 2 \<and> a \<in> set ks \<and> b \<in> set ks) = (set ks = {a, b})"
proof
  assume L: "length ks = 2 \<and> a \<in> set ks \<and> b \<in> set ks"
  have "card (set ks) = 2"
    using assms L by (simp add: distinct_card)
  moreover have "{a, b} \<subseteq> set ks"
    using L by simp
  moreover have "card {a, b} = 2"
    using assms by simp
  ultimately show "set ks = {a, b}"
    by (metis card_subset_eq finite_set)
next
  assume R: "set ks = {a, b}"
  then have "length ks = 2"
    using distinct_card [OF assms(2)] assms(1) by simp
  with R show "length ks = 2 \<and> a \<in> set ks \<and> b \<in> set ks"
    by simp
qed

text \<open>
  Claim C5, as stated: for every tag \<open>t\<close>, mapping \<open>t\<close> to its prefix and the prefix back
  to a tag with \<^verbatim>\<open>fromStr\<close> gives \<open>t\<close>. It fails at \<open>BOOL\<close>: the table of
  \<^verbatim>\<open>fromStr\<close> is keyed by the names (\<^verbatim>\<open>"bool"\<close>), and the prefix
  \<^verbatim>\<open>"bool_"\<close> is no key, so the default \<open>UNKNOWN\<close> comes back.
\<close>

theorem C5_prefix_roundtrip_counterexample:
  "fromStr (prefix BOOL) = UNKNOWN \<and> fromStr (prefix BOOL) \<noteq> BOOL"
  by (simp add: fromStr_def fromStr_table_def prefix_def)

text \<open>
  Claim C5, amended: for every tag \<open>t\<close>, mapping \<open>t\<close> to its canonical lowercase name
  (\<^verbatim>\<open>str\<close>) and that name back with \<^verbatim>\<open>fromStr\<close> gives \<open>t\<close> again, with
  \<open>UNKNOWN\<close> going to and from the empty name. The prefix is the name followed by an
  underscore (empty for \<open>UNKNOWN\<close>), and \<^verbatim>\<open>fromStr\<close> maps every prefix to
  \<open>UNKNOWN\<close>: the code has no mapping from prefixes to tags.
\<close>

theorem C5_name_roundtrip:
  "fromStr (str_DataType t) = t \<and>
   (t \<noteq> UNKNOWN \<longrightarrow> prefix t = str_DataType t @ ''_'') \<and>
   prefix UNKNOWN = [] \<and> str_DataType UNKNOWN = [] \<and>
   fromStr (prefix t) = UNKNOWN"
  by (cases t) (simp_all add: fromStr_def fromStr_table_def prefix_def)

theorem C5_name_roundtrip_witness:
  "fromStr (str_DataType GEOPOINT) = GEOPOINT \<and> prefix GEOPOINT = ''geopoint_'' \<and>
   fromStr (prefix GEOPOINT) = UNKNOWN"
  using C5_name_roundtrip [of GEOPOINT] by (simp add: prefix_def)

text \<open>
  Claim C6: \<^verbatim>\<open>forValue\<close> is total and never raises. In the model its result type has
  no error alternative, and every exception of the \<^verbatim>\<open>try\<close> body is a value of
  \<open>forValue_try\<close> that \<open>forValue\<close> turns into \<open>UNKNOWN\<close>. An empty list gives
  \<open>UNKNOWN\<close>, a non-empty list the classification of its first element, and a value
  that is neither a dict nor a list and whose type is no key of the table gives \<open>UNKNOWN\<close>.
\<close>

theorem C6_forValue_total:
  "(\<exists>t. forValue v = t \<and> t \<in> set DataType_members) \<and>
   (forValue_try v = Inl e \<longrightarrow> forValue v = UNKNOWN) \<and>
   forValue (VList []) = UNKNOWN \<and>
   forValue (VList (x # xs)) = forValue x \<and>
   ((\<forall>d. v \<noteq> VDict d) \<and> (\<forall>ys. v \<noteq> VList ys) \<and> type_table v = Inl KeyError
      \<longrightarrow> forValue v = UNKNOWN)"
proof -
  have "forValue v \<in> set DataType_members"
    by (cases "forValue v") (simp_all add: DataType_members_def)
  moreover have "forValue_try v = Inl e \<longrightarrow> forValue v = UNKNOWN"
    by simp
  moreover have "(\<forall>d. v \<noteq> VDict d) \<and> (\<forall>ys. v \<noteq> VList ys) \<and> type_table v = Inl KeyError
      \<longrightarrow> forValue v = UNKNOWN"
    by (cases v) simp_all
  ultimately show ?thesis
    by simp
qed

theorem C6_forValue_total_witness:
  "forValue_try (VList []) = Inl IndexError \<and> forValue (VList []) = UNKNOWN \<and>
   forValue (VList [VInt 7, VStr ''a'']) = LONG \<and>
   type_table (VOther ''5f1e'') = Inl KeyError \<and> forValue (VOther ''5f1e'') = UNKNOWN"
  using C6_forValue_total [of "VList []" IndexError "VInt 7" "[VStr ''a'']"]
    C6_forValue_total [of "VOther ''5f1e''" KeyError "VInt 7" "[VStr ''a'']"]
  by simp

text \<open>
  Claim C7: for every tag \<open>t\<close> other than \<open>UNKNOWN\<close> and every string \<open>name\<close>,
  \<^verbatim>\<open>attributeNameFromKey(prefix(t) + name) == name\<close>; and a key that starts with no
  non-empty prefix is returned unchanged.
\<close>

theorem C7_strip_prefix:
  "(t \<noteq> UNKNOWN \<longrightarrow> attributeNameFromKey (prefix t @ name) = name) \<and>
   ((\<forall>u. u \<noteq> UNKNOWN \<longrightarrow> \<not> startswith key (prefix u)) \<longrightarrow> attributeNameFromKey key = key)"
proof -
  have "t \<noteq> UNKNOWN \<longrightarrow> attributeNameFromKey (prefix t @ name) = name"
    by (cases t)
      (simp_all add: attributeNameFromKey_def DataType_members_def prefix_def startswith_def)
  moreover have "attributeNameFromKey key = key"
    if "\<forall>u. u \<noteq> UNKNOWN \<longrightarrow> \<not> startswith key (prefix u)"
  proof -
    from that have "\<not> startswith key (prefix BOOL)" "\<not> startswith key (prefix LONG)"
      "\<not> startswith key (prefix DOUBLE)" "\<not> startswith key (prefix STRING)"
      "\<not> startswith key (prefix DICT)" "\<not> startswith key (prefix DATETIME)"
      "\<not> startswith key (prefix GEOPOINT)"
      by simp_all
    moreover have "prefix UNKNOWN = []"
      by (simp add: prefix_def)
    ultimately show ?thesis
      by (simp add: attributeNameFromKey_def DataType_members_def)
  qed
  ultimately show ?thesis
    by blast
qed

theorem C7_strip_prefix_witness:
  "attributeNameFromKey (prefix DATETIME @ ''name'') = ''name'' \<and>
   attributeNameFromKey ''datetime_name'' = ''name'' \<and>
   attributeNameFromKey ''name'' = ''name''"
proof -
  have h: "\<forall>u. u \<noteq> UNKNOWN \<longrightarrow> \<not> startswith ''name'' (prefix u)"
  proof (intro allI impI)
    fix u :: DataType
    assume "u \<noteq> UNKNOWN"
    then show "\<not> startswith ''name'' (prefix u)"
      by (cases u) (simp_all add: prefix_def startswith_def)
  qed
  show ?thesis
    using h C7_strip_prefix [of DATETIME "''name''" "''name''"]
    by (simp add: prefix_def)
qed

text \<open>
  Claim C8: a dict is classified \<open>GEOPOINT\<close> exactly when its keys are the two keys
  \<^verbatim>\<open>lat\<close> and \<^verbatim>\<open>lon\<close>, whatever the values and the order, and \<open>DICT\<close>
  otherwise. The keys of a Python dict are distinct.
\<close>

theorem C8_geopoint_shape:
  assumes "distinct (map fst d)"
  shows "(forValue (VDict d) = GEOPOINT) = (set (map fst d) = {''lat'', ''lon''}) \<and>
         (forValue (VDict d) = DICT) = (set (map fst d) \<noteq> {''lat'', ''lon''}) \<and>
         forValue (VDict [(''lat'', VFloat (Finite 1 0)), (''lon'', VFloat (Finite 2 0))])
           = GEOPOINT \<and>
         forValue (VDict [(''lat'', VFloat (Finite 1 0)), (''lon'', VFloat (Finite 2 0)),
                          (''alt'', VFloat (Finite 3 0))]) = DICT"
  using assms two_keys [of "''lat''" "''lon''" "map fst d"]
  by (simp add: typeForDictValue_def isGeoPoint_def)

theorem C8_geopoint_shape_witness:
  "distinct (map fst [(''lon'', VStr ''east''), (''lat'', VNone)]) \<and>
   forValue (VDict [(''lon'', VStr ''east''), (''lat'', VNone)]) = GEOPOINT \<and>
   distinct (map fst ([] :: pydict)) \<and> forValue (VDict []) = DICT"
proof -
  have h1: "distinct (map fst [(''lon'', VStr ''east''), (''lat'', VNone)])"
    by simp
  have h2: "distinct (map fst ([] :: pydict))"
    by simp
  have s1: "set (map fst [(''lon'', VStr ''east''), (''lat'', VNone)]) = {''lat'', ''lon''}"
    by auto
  have s2: "set (map fst ([] :: pydict)) \<noteq> {''lat'', ''lon''}"
    by simp
  show ?thesis
    using h1 h2 s1 s2 C8_geopoint_shape [OF h1] C8_geopoint_shape [OF h2]
    by simp
qed

section \<open>The value normalizer and the default formatter\<close>

subsection \<open>A flattener never logs\<close>

lemma numeric_branch_no_log: "fst (numeric_branch v) = []"
  by (simp add: numeric_branch_def raise_def ret_def split: sum.splits bool.splits)

lemma res_bind_no_log:
  "fst m = [] \<Longrightarrow> (\<And>x. fst (f x) = []) \<Longrightarrow> fst (res_bind m f) = []"
  by (cases m) (auto simp: res_bind_def split: sum.splits prod.splits)

lemma transform_values_no_log:
  "\<forall>x \<in> set vs. fst (transform_value DocumentFlattener x) = [] \<Longrightarrow>
   fst (transform_values DocumentFlattener vs) = []"
  by (induction vs) (simp_all add: res_bind_no_log ret_def)

lemma transform_value_Flattener_no_log: "fst (transform_value DocumentFlattener v) = []"
proof (induction v)
  case (VList xs)
  then have "fst (transform_values DocumentFlattener xs) = []"
    by (simp add: transform_values_no_log)
  then show ?case
    by (simp add: res_bind_no_log ret_def)
qed (simp_all add: numeric_branch_no_log ret_def raise_def)

text \<open>
  Claim C9: for every boolean \<open>b\<close>, \<^verbatim>\<open>transform_value(b)\<close> returns \<open>b\<close> itself, for a
  formatter of either class: a boolean is an \<^verbatim>\<open>int\<close>, takes the numeric branch, is
  neither NaN nor infinite, and comes back unchanged, with nothing raised or logged.
\<close>

theorem C9_bool_unchanged:
  "transform_value self (VBool b) = ([], Inr (VBool b)) \<and>
   numeric_branch (VBool b) = ret (VBool b)"
  by (simp add: numeric_branch_def ret_def)

subsection \<open>Invalid values in the default formatter\<close>

text \<open>
  \<^verbatim>\<open>DefaultDocumentFormatter.transform_element\<close> catches every \<^verbatim>\<open>ValueError\<close>, so
  none leaves \<^verbatim>\<open>DefaultDocumentFormatter.format_document\<close>; a field whose value
  fails is logged and skipped, and the loop goes on as if the field were not there.
\<close>

lemma transform_element_D_no_ValueError:
  "snd (transform_element_D key v) \<noteq> Inl (ValueError m)"
  by (auto split: prod.splits sum.splits exn.splits)

lemma kernel_body_no_ValueError:
  "kernel_body first_call pairs new_key \<noteq> Inl (ValueError m)"
  by (induction pairs arbitrary: new_key)
     (auto simp: Let_def split: option.splits sum.splits prod.splits)

lemma res_bind_no_ValueError:
  "snd m \<noteq> Inl (ValueError e) \<Longrightarrow> (\<And>x. snd (f x) \<noteq> Inl (ValueError e)) \<Longrightarrow>
   snd (res_bind m f) \<noteq> Inl (ValueError e)"
proof -
  assume m: "snd m \<noteq> Inl (ValueError e)" and f: "\<And>x. snd (f x) \<noteq> Inl (ValueError e)"
  obtain l r where mm: "m = (l, r)" by (cases m)
  show ?thesis
  proof (cases r)
    case (Inl x)
    with m mm show ?thesis by (simp add: res_bind_def)
  next
    case (Inr x)
    obtain l' r' where fx: "f x = (l', r')" by (cases "f x")
    with f [of x] have "r' \<noteq> Inl (ValueError e)" by simp
    with Inr mm fx show ?thesis by (simp add: res_bind_def)
  qed
qed

lemma kernel_D_no_ValueError:
  "snd (kernel_D first_call doc new_key) \<noteq> Inl (ValueError m)"
proof (induction doc arbitrary: new_key)
  case Nil
  then show ?case by (simp add: ret_def)
next
  case (Cons kv doc)
  obtain k v where kv: "kv = (k, v)" by (cases kv)
  have "snd (res_bind (transform_element_D k v) (\<lambda>pairs.
          res_bind ([], kernel_body first_call pairs new_key) (\<lambda>(out, new_key').
          res_bind (kernel_D first_call doc new_key') (\<lambda>rest. ret (out @ rest)))))
        \<noteq> Inl (ValueError m)"
  proof (intro res_bind_no_ValueError)
    show "snd (transform_element_D k v) \<noteq> Inl (ValueError m)"
      by (rule transform_element_D_no_ValueError)
  next
    fix pairs
    show "snd ([] :: string list, kernel_body first_call pairs new_key) \<noteq> Inl (ValueError m)"
      by (simp add: kernel_body_no_ValueError)
  next
    fix pairs :: pydict and x :: "pydict \<times> string option"
    obtain out nk where x: "x = (out, nk)" by (cases x)
    have "snd (res_bind (kernel_D first_call doc nk) (\<lambda>rest. ret (out @ rest)))
            \<noteq> Inl (ValueError m)"
      by (intro res_bind_no_ValueError Cons.IH) (simp add: ret_def)
    then show "snd (case x of (out, new_key') \<Rightarrow>
                 res_bind (kernel_D first_call doc new_key') (\<lambda>rest. ret (out @ rest)))
               \<noteq> Inl (ValueError m)"
      by (simp add: x)
  qed
  then show ?case
    by (simp add: kv del: transform_element_D.simps)
qed

lemma format_document_D_no_ValueError:
  "snd (format_document_D doc first_call) \<noteq> Inl (ValueError m)"
  by (simp add: res_bind_no_ValueError kernel_D_no_ValueError ret_def)

lemma kernel_D_drops_invalid:
  assumes "transform_value DefaultDocumentFormatter v = (l, Inl (ValueError m))"
  shows "kernel_D first_call ((k, v) # doc) new_key =
           (l @ [warning k m] @ fst (kernel_D first_call doc new_key),
            snd (kernel_D first_call doc new_key))"
  using assms
  by (auto simp: res_bind_def ret_def split: prod.splits sum.splits)

text \<open>
  Claim C2 says that in both modes a field whose value is NaN or infinite is omitted
  with a warning, the other fields are output as if it were absent, and the failure
  never leaves \<^verbatim>\<open>format_document\<close>. The default formatter does so (lemmas above, and
  the third evaluation below). \<^verbatim>\<open>DocumentFlattener.transform_element\<close> overrides
  \<^verbatim>\<open>transform_element\<close> without the \<^verbatim>\<open>try\<close>: on
  \<^verbatim>\<open>{"b": {"x": 1, "n": NaN}}\<close> the \<^verbatim>\<open>ValueError\<close> leaves
  \<^verbatim>\<open>format_document\<close> and no field is output, where without \<^verbatim>\<open>n\<close> the
  result is \<^verbatim>\<open>{"b.x": 1}\<close>.
\<close>

theorem C2_flattener_raises_ValueError:
  "format_document_F [(''b'', VDict [(''x'', VInt 1), (''n'', VFloat NaN)])]
     = Inl (ValueError ''nan'') \<and>
   format_document_F [(''b'', VDict [(''x'', VInt 1)])] = Inr [(''b.x'', VInt 1)] \<and>
   format_document_D [(''b'', VDict [(''x'', VInt 1), (''n'', VFloat NaN)])] True
     = ([''Invalid value for key: n as nan''], Inr [(''object_b'', VDict [(''x'', VInt 1)])])"
  by (simp add: numeric_branch_def ret_def raise_def float_overflows_def gen_seq_def
      list_pop_def dotted_def dict_of_def res_bind_def prefix_def startswith_def warning_def
      typeForDictValue_def isGeoPoint_def)

text \<open>
  Claim C3 says that at the top level of the non-flattening mode a key that already
  starts with the prefix of its value's type is output under its own, unchanged key.
  In \<^verbatim>\<open>_kernel\<close> the assignment to \<^verbatim>\<open>new_key\<close> is skipped for such a key and
  nothing else assigns it: on \<^verbatim>\<open>{"a": 1, "long_b": 2}\<close> the value 2 is stored under
  the key of the field before, \<^verbatim>\<open>long_a\<close>, and the result is
  \<^verbatim>\<open>{"long_a": 2}\<close>; when the field comes first (\<^verbatim>\<open>{"long_b": 2}\<close>, or any value
  classified \<open>UNKNOWN\<close> such as \<^verbatim>\<open>{"x": None}\<close>) the read of \<^verbatim>\<open>new_key\<close> raises
  \<^verbatim>\<open>UnboundLocalError\<close>.
\<close>

theorem C3_stale_new_key:
  "format_document_D [(''a'', VInt 1), (''long_b'', VInt 2)] True
     = ([], Inr [(''long_a'', VInt 2)]) \<and>
   format_document_D [(''long_b'', VInt 2)] True = ([], Inl UnboundLocalError) \<and>
   format_document_D [(''x'', VNone)] True = ([], Inl UnboundLocalError)"
  by (simp add: numeric_branch_def ret_def raise_def float_overflows_def res_bind_def
      prefix_def startswith_def dict_of_def)

section \<open>The flattener\<close>

subsection \<open>Output keys of nested fields\<close>









lemma gen_seq_None: "snd (gen_seq g h) = None \<Longrightarrow> snd g = None \<and> snd h = None"
  by (auto simp: gen_seq_def split: prod.splits option.splits)




















text \<open>
  Claim C1 says that the flattener maps
  \<^verbatim>\<open>{"a": 2, "b": {"c": {"d": 5}}, "e": [6, 7, 8]}\<close> to
  \<^verbatim>\<open>{"long_a": 2, "b.c.d": 5, "e.0": 6, "e.1": 7, "e.2": 8}\<close>. The root-level branch
  of \<^verbatim>\<open>flatten\<close> computes \<^verbatim>\<open>DataType.forValue(new_v).prefix + new_k\<close>: the method
  \<^verbatim>\<open>prefix\<close> is not called, and a bound method plus a string raises
  \<^verbatim>\<open>TypeError\<close> at the first root-level pair, here that of \<^verbatim>\<open>a\<close>. The call
  returns no mapping.
\<close>

theorem C1_flattener_root_TypeError:
  "format_document_F
     [(''a'', VInt 2), (''b'', VDict [(''c'', VDict [(''d'', VInt 5)])]),
      (''e'', VList [VInt 6, VInt 7, VInt 8])]
   = Inl TypeError"
  by (simp add: numeric_branch_def ret_def raise_def float_overflows_def gen_seq_def)


end
